theory Spec2Isabelle
  imports Main
begin

section \<open>Data model\<close>

text \<open>
  The program (\<^verbatim>\<open>app.py\<close>) is a configuration-driven ETL job over pandas data frames.
  A data frame is modelled by its column labels, in order, and its rows, in index order;
  every row has one cell per column (\<open>wf_frame\<close>). A cell is missing (\<open>NA\<close>, pandas'
  NaN), a number or a string. The number type is a parameter \<open>'n\<close>; the dtype of a column
  is read off its cells. Column labels may repeat, as pandas allows.
\<close>

datatype 'n cell = NA | Num 'n | Str string

record 'n DataFrame =
  columns :: "string list"
  rows :: "'n cell list list"

definition wf_frame :: "'n DataFrame \<Rightarrow> bool" where
  "wf_frame df = list_all (\<lambda>r. length r = length (columns df)) (rows df)"

text \<open>
  Exceptions are values. The first group are the Python exceptions the program can raise
  (pandas' MergeError is a ValueError); the second group are the error kinds named by the
  specification, none of which the program defines or raises.
\<close>

datatype error =
    KeyError string
  | NameError string
  | UnboundLocalError string
  | TypeError
  | ValueError
  | IndexError
  | OtherError string
  | UnknownTransformationError
  | ColumnNotFoundError
  | TableNotFoundError
  | NoJoinConfiguredError

text \<open>
  The configuration is the JSON document read by \<^verbatim>\<open>get_configuration\<close>; a JSON object
  whose keys are data (\<^verbatim>\<open>parameters\<close>, \<^verbatim>\<open>source.data\<close>) is an association list in
  iteration order, with distinct keys. A single join column \<^verbatim>\<open>"on": "id"\<close> is the
  one-element list.
\<close>

type_synonym params = "(string \<times> string) list"

record TransformationStep =
  name :: string
  parameters :: params

record TableTransformationSpec =
  table_name :: string
  transformations :: "TransformationStep list"

record JoinSpec =
  source_1 :: string
  source_2 :: string
  on :: "string list"
  how :: string

record configuration =
  source_type :: string
  source_data :: "(string \<times> string) list"
  tables :: "TableTransformationSpec list"
  join :: "JoinSpec list"

text \<open>
  The state \<^verbatim>\<open>ETL.run\<close> works on: its dictionary of tables, and the destination, which is
  the list of the frames handed to \<^verbatim>\<open>write_data\<close>, oldest first. An action returns a
  result or the exception it raised, and the state it left behind in either case.
\<close>

record 'n state =
  source_data_dct :: "string \<rightharpoonup> 'n DataFrame"
  destination :: "'n DataFrame list"

text \<open>
  What \<^verbatim>\<open>eval(tr["name"])\<close> returns is called with a frame and the step's parameters.
  The call runs inside \<^verbatim>\<open>run\<close>, so it may raise and it may change the state.
\<close>

type_synonym 'n callable =
  "'n DataFrame \<Rightarrow> params \<Rightarrow> 'n state \<Rightarrow> (error + 'n DataFrame) \<times> 'n state"

text \<open>The loop variables of lines 110-113 that an evaluated expression can read.\<close>

record scope =
  scope_tables_t :: TableTransformationSpec
  scope_tr :: TransformationStep

text \<open>
  What the program takes from outside its own text is a parameter of the model:
  \<^item> \<open>eval_expression\<close>: Python's \<^verbatim>\<open>eval\<close> on every string other than the two
    transformation names the module itself binds (built-ins, lambdas, unbound names,
    expressions over \<^verbatim>\<open>self\<close> and \<^verbatim>\<open>source_data_dct\<close>, ...). The expression is
    evaluated in the scope of \<^verbatim>\<open>run\<close>: it reads the loop variables, it reads and may
    change the tables and the destination, and it returns a callable or raises.
    Expressions that read or change the configuration object, and evaluations or calls
    that never return, are outside the model;
  \<^item> \<open>parse_numeric\<close>: the number a string denotes for \<^verbatim>\<open>pd.to_numeric\<close>, if any;
  \<^item> \<open>is_int\<close>: whether a number is an integer (int64) and not a float;
  \<^item> \<open>to_float\<close>: the float64 a number becomes in a float64 column;
  \<^item> \<open>astype_cell\<close>: \<^verbatim>\<open>Series.astype\<close>; resolving the type name may fail, and so may
    the conversion of a value;
  \<^item> \<open>read_csv_dir\<close>: the frame \<^verbatim>\<open>CSVFileSource\<close> builds from the files of a directory.
\<close>

record 'n runtime =
  eval_expression :: "string \<Rightarrow> scope \<Rightarrow> 'n state \<Rightarrow> (error + 'n callable) \<times> 'n state"
  parse_numeric :: "string \<Rightarrow> 'n option"
  is_int :: "'n \<Rightarrow> bool"
  to_float :: "'n \<Rightarrow> 'n"
  astype_cell :: "string \<Rightarrow> error + ('n cell \<Rightarrow> error + 'n cell)"
  read_csv_dir :: "string \<Rightarrow> error + 'n DataFrame"

section \<open>The transformations\<close>

subsection \<open>\<^verbatim>\<open>rename\<close>\<close>

text \<open>
  \<^verbatim>\<open>df.rename(columns=parameters)\<close> maps every column label through the dictionary and
  leaves a label that is not a key as it is; with the default \<^verbatim>\<open>errors='ignore'\<close> a key
  that is no column label is skipped silently. It returns a new frame.
\<close>

definition rename_label :: "params \<Rightarrow> string \<Rightarrow> string" where
  "rename_label ps c = (case map_of ps c of None \<Rightarrow> c | Some n \<Rightarrow> n)"

definition rename :: "'n DataFrame \<Rightarrow> params \<Rightarrow> error + 'n DataFrame" where
  "rename df ps = Inr (df\<lparr>columns := map (rename_label ps) (columns df)\<rparr>)"

definition inverse_mapping :: "params \<Rightarrow> params" where
  "inverse_mapping ps = map (\<lambda>(old, new). (new, old)) ps"

subsection \<open>\<^verbatim>\<open>set_types\<close>\<close>

definition col_positions :: "string \<Rightarrow> string list \<Rightarrow> nat list" where
  "col_positions k cs = filter (\<lambda>i. cs ! i = k) [0..<length cs]"

text \<open>
  \<^verbatim>\<open>pd.to_numeric(column, errors='coerce')\<close>. Each cell is parsed: a number stays, a
  string becomes the number it denotes or missing, a missing value stays missing. The
  dtype of the result is fixed by the whole column: int64 when every cell has become an
  integer, float64 otherwise, and then every number of the column is converted to
  float64 (which rounds an integer beyond \<open>2\<^sup>5\<^sup>3\<close>).
\<close>

definition parse_cell :: "(string \<Rightarrow> 'n option) \<Rightarrow> 'n cell \<Rightarrow> 'n cell" where
  "parse_cell parse c =
     (case c of
        NA \<Rightarrow> NA
      | Num n \<Rightarrow> Num n
      | Str s \<Rightarrow> (case parse s of None \<Rightarrow> NA | Some n \<Rightarrow> Num n))"

definition int_cell :: "'n runtime \<Rightarrow> 'n cell \<Rightarrow> bool" where
  "int_cell rt c = (case c of Num n \<Rightarrow> is_int rt n | _ \<Rightarrow> False)"

definition float_cell :: "'n runtime \<Rightarrow> 'n cell \<Rightarrow> 'n cell" where
  "float_cell rt c = (case c of Num n \<Rightarrow> Num (to_float rt n) | _ \<Rightarrow> c)"

definition to_numeric :: "'n runtime \<Rightarrow> 'n cell list \<Rightarrow> 'n cell list" where
  "to_numeric rt col =
     (let parsed = map (parse_cell (parse_numeric rt)) col
      in if list_all (int_cell rt) parsed then parsed else map (float_cell rt) parsed)"

text \<open>\<^verbatim>\<open>df.dropna(subset=[k])\<close> for the column at position \<open>i\<close>.\<close>

definition dropna :: "nat \<Rightarrow> 'n cell list list \<Rightarrow> 'n cell list list" where
  "dropna i rs = filter (\<lambda>r. r ! i \<noteq> NA) rs"

text \<open>
  \<^verbatim>\<open>astype\<close> converts a column from its first row to its last and raises at the first
  value that does not convert.
\<close>

fun cast_column ::
  "('n cell \<Rightarrow> error + 'n cell) \<Rightarrow> nat \<Rightarrow> 'n cell list list \<Rightarrow> error + 'n cell list list" where
  "cast_column f i [] = Inr []"
| "cast_column f i (r # rs) =
     (case f (r ! i) of
        Inl e \<Rightarrow> Inl e
      | Inr y \<Rightarrow> (case cast_column f i rs of
                   Inl e \<Rightarrow> Inl e
                 | Inr rs' \<Rightarrow> Inr (r[i := y] # rs')))"

fun cast_columns ::
  "('n cell \<Rightarrow> error + 'n cell) \<Rightarrow> nat list \<Rightarrow> 'n cell list list \<Rightarrow> error + 'n cell list list" where
  "cast_columns f [] rs = Inr rs"
| "cast_columns f (i # is) rs =
     (case cast_column f i rs of
        Inl e \<Rightarrow> Inl e
      | Inr rs' \<Rightarrow> cast_columns f is rs')"

text \<open>
  One iteration of the loop of \<^verbatim>\<open>set_types\<close>, for the key \<open>k\<close> with
  \<open>t = parameters[k]\<close>. \<^verbatim>\<open>df[k]\<close> raises KeyError when no column is labelled \<open>k\<close>; when
  several are, it is a frame, which \<^verbatim>\<open>pd.to_numeric\<close> refuses with TypeError and
  \<^verbatim>\<open>astype\<close> converts column by column. For \<^verbatim>\<open>"to_numeric"\<close> the converted column is
  assigned back (line 133) and the rows where it is missing are dropped (line 134).
\<close>

definition set_type :: "'n runtime \<Rightarrow> 'n DataFrame \<Rightarrow> string \<Rightarrow> string \<Rightarrow> error + 'n DataFrame" where
  "set_type rt df k t =
     (if t = ''to_numeric'' then
        (case col_positions k (columns df) of
           [] \<Rightarrow> Inl (KeyError k)
         | [i] \<Rightarrow>
             Inr (df\<lparr>rows :=
               dropna i (map (\<lambda>(r, c). r[i := c])
                 (zip (rows df) (to_numeric rt (map (\<lambda>r. r ! i) (rows df)))))\<rparr>)
         | _ \<Rightarrow> Inl TypeError)
      else
        (case col_positions k (columns df) of
           [] \<Rightarrow> Inl (KeyError k)
         | ps \<Rightarrow>
             (case astype_cell rt t of
                Inl e \<Rightarrow> Inl e
              | Inr f \<Rightarrow>
                  (case cast_columns f ps (rows df) of
                     Inl e \<Rightarrow> Inl e
                   | Inr rs \<Rightarrow> Inr (df\<lparr>rows := rs\<rparr>)))))"

text \<open>
  The loop \<^verbatim>\<open>for k in parameters.keys()\<close>, over the dictionary's items in order. The
  Python assigns into the frame it was given until the first \<^verbatim>\<open>dropna\<close> rebinds
  \<^verbatim>\<open>df\<close>; \<^verbatim>\<open>run\<close> stores the returned frame under the same table name and stops at an
  exception, so the frame returned is all a caller sees.
\<close>

fun set_types :: "'n runtime \<Rightarrow> 'n DataFrame \<Rightarrow> params \<Rightarrow> error + 'n DataFrame" where
  "set_types rt df [] = Inr df"
| "set_types rt df ((k, t) # ps) =
     (case set_type rt df k t of
        Inl e \<Rightarrow> Inl e
      | Inr df' \<Rightarrow> set_types rt df' ps)"

text \<open>
  Notions for stating what \<^verbatim>\<open>set_types\<close> does to a frame with column labels \<open>cs\<close>:
  the keys mapped to \<^verbatim>\<open>"to_numeric"\<close>; the rows whose cell is a number, or a string that
  denotes one, in every column labelled by such a key; the cells of a row in the columns
  that no key labels.
\<close>

definition numeric_keys :: "params \<Rightarrow> string list" where
  "numeric_keys ps = map fst (filter (\<lambda>(k, t). t = ''to_numeric'') ps)"

definition parsable_row ::
  "(string \<Rightarrow> 'n option) \<Rightarrow> string list \<Rightarrow> params \<Rightarrow> 'n cell list \<Rightarrow> bool" where
  "parsable_row parse cs ps r =
     list_all (\<lambda>j. if cs ! j \<in> set (numeric_keys ps) then parse_cell parse (r ! j) \<noteq> NA else True)
       [0..<length cs]"

definition other_cells :: "string list \<Rightarrow> params \<Rightarrow> 'n cell list \<Rightarrow> 'n cell list" where
  "other_cells cs ps r =
     map (\<lambda>j. r ! j) (filter (\<lambda>j. cs ! j \<notin> set (map fst ps)) [0..<length cs])"

text \<open>
  What the cell \<open>c\<close> of an input row must have become, \<open>c'\<close>, in the column at position
  \<open>j\<close> of the result, for the input rows \<open>rs\<close> and the parameters \<open>ps\<close>. The item of \<open>ps\<close>
  whose key labels the column decides:
  \<^item> no such item: the cell is unchanged;
  \<^item> \<^verbatim>\<open>"to_numeric"\<close>: the cell is parsed, and converted to float64 unless every cell
    that \<^verbatim>\<open>pd.to_numeric\<close> saw parses to an integer; it saw the column \<open>j\<close> of the rows
    that passed the items in front of this one;
  \<^item> any other type \<open>t\<close>: \<^verbatim>\<open>astype(t)\<close> resolved to a conversion, and the conversion of
    \<open>c\<close> returned \<open>c'\<close>.
\<close>

definition expected_cell ::
  "'n runtime \<Rightarrow> string list \<Rightarrow> 'n cell list list \<Rightarrow> params \<Rightarrow> nat \<Rightarrow> 'n cell \<Rightarrow> 'n cell \<Rightarrow> bool" where
  "expected_cell rt cs rs ps j c c' =
     (case dropWhile (\<lambda>(k, t). k \<noteq> cs ! j) ps of
        [] \<Rightarrow> c' = c
      | (k, t) # _ \<Rightarrow>
          (if t = ''to_numeric'' then
             (let seen = map (\<lambda>r. r ! j)
                           (filter (parsable_row (parse_numeric rt) cs
                                      (takeWhile (\<lambda>(k, t). k \<noteq> cs ! j) ps)) rs)
              in if list_all (\<lambda>x. int_cell rt (parse_cell (parse_numeric rt) x)) seen
                 then c' = parse_cell (parse_numeric rt) c
                 else c' = float_cell rt (parse_cell (parse_numeric rt) c))
           else
             (case astype_cell rt t of
                Inl e \<Rightarrow> False
              | Inr f \<Rightarrow> f c = Inr c')))"

definition expected_row ::
  "'n runtime \<Rightarrow> string list \<Rightarrow> 'n cell list list \<Rightarrow> params \<Rightarrow> 'n cell list \<Rightarrow> 'n cell list \<Rightarrow> bool" where
  "expected_row rt cs rs ps r r' =
     (length r = length cs \<and> length r' = length cs \<and>
      list_all (\<lambda>j. expected_cell rt cs rs ps j (r ! j) (r' ! j)) [0..<length cs])"

text \<open>The cell-wise view of \<open>to_numeric\<close> on the column \<open>col\<close>, for the proofs.\<close>

definition coerce_cell :: "'n runtime \<Rightarrow> 'n cell list \<Rightarrow> 'n cell \<Rightarrow> 'n cell" where
  "coerce_cell rt col c =
     (if list_all (\<lambda>x. int_cell rt (parse_cell (parse_numeric rt) x)) col
      then parse_cell (parse_numeric rt) c
      else float_cell rt (parse_cell (parse_numeric rt) c))"

section \<open>Joins\<close>

text \<open>
  \<^verbatim>\<open>left.merge(right, on=on, how=how)\<close> for the join kinds of the configuration format,
  as pandas 2 does it.
  \<^item> The key columns must exist, once, in both frames (the right frame is looked at
    first), or KeyError or ValueError is raised.
  \<^item> A key column of strings cannot be merged with a key column of numbers
    (ValueError). The model reads the dtype off the cells: a column without a string cell
    is numeric, a column with string cells and no number is a string column; a column
    that mixes strings and numbers, which \<^verbatim>\<open>read_csv\<close> never produces, is let through.
  \<^item> Rows match when their key cells are equal, missing keys included.
  \<^item> The result has the columns of the left frame followed by the columns of the right
    frame that are no keys; a label the two frames share outside the keys gets the suffix
    \<^verbatim>\<open>_x\<close> or \<^verbatim>\<open>_y\<close>, and a suffixed label that repeats a label of its own frame is
    refused (MergeError).
  \<^item> Inner and left joins keep the order of the left rows, a right join the order of the
    right rows; an outer join is sorted by key, numbers before strings before missing
    keys, rows of equal keys in the order of the left rows.
\<close>

definition label_index :: "string \<Rightarrow> string list \<Rightarrow> nat" where
  "label_index k cs = length (takeWhile (\<lambda>c. c \<noteq> k) cs)"

definition check_label :: "string \<Rightarrow> string list \<Rightarrow> error option" where
  "check_label k cs =
     (case col_positions k cs of
        [] \<Rightarrow> Some (KeyError k)
      | [i] \<Rightarrow> None
      | _ \<Rightarrow> Some ValueError)"

fun check_keys :: "string list \<Rightarrow> string list \<Rightarrow> string list \<Rightarrow> error option" where
  "check_keys [] lc rc = None"
| "check_keys (k # ks) lc rc =
     (case check_label k rc of
        Some e \<Rightarrow> Some e
      | None \<Rightarrow> (case check_label k lc of
                   Some e \<Rightarrow> Some e
                 | None \<Rightarrow> check_keys ks lc rc))"

definition has_str :: "'n cell list \<Rightarrow> bool" where
  "has_str col = list_ex (\<lambda>c. case c of Str s \<Rightarrow> True | _ \<Rightarrow> False) col"

definition has_num :: "'n cell list \<Rightarrow> bool" where
  "has_num col = list_ex (\<lambda>c. case c of Num n \<Rightarrow> True | _ \<Rightarrow> False) col"

definition string_against_number :: "'n cell list \<Rightarrow> 'n cell list \<Rightarrow> bool" where
  "string_against_number a b = (has_str a \<and> \<not> has_num a \<and> b \<noteq> [] \<and> \<not> has_str b)"

definition key_dtypes_clash :: "string list \<Rightarrow> 'n DataFrame \<Rightarrow> 'n DataFrame \<Rightarrow> bool" where
  "key_dtypes_clash ks left right =
     list_ex (\<lambda>k.
       (let lk = map (\<lambda>r. r ! label_index k (columns left)) (rows left);
            rk = map (\<lambda>r. r ! label_index k (columns right)) (rows right)
        in string_against_number lk rk \<or> string_against_number rk lk)) ks"

definition key_values :: "string list \<Rightarrow> string list \<Rightarrow> 'n cell list \<Rightarrow> 'n cell list" where
  "key_values ks cs r = map (\<lambda>k. r ! label_index k cs) ks"

definition rest_positions :: "string list \<Rightarrow> string list \<Rightarrow> nat list" where
  "rest_positions ks cs = filter (\<lambda>j. cs ! j \<notin> set ks) [0..<length cs]"

definition left_labels :: "string list \<Rightarrow> string list \<Rightarrow> string list \<Rightarrow> string list" where
  "left_labels ks lc rc =
     map (\<lambda>c. if c \<in> set (filter (\<lambda>c. c \<notin> set ks) rc) then c @ ''_x'' else c) lc"

definition right_labels :: "string list \<Rightarrow> string list \<Rightarrow> string list \<Rightarrow> string list" where
  "right_labels ks lc rc =
     map (\<lambda>c. if c \<in> set lc then c @ ''_y'' else c) (filter (\<lambda>c. c \<notin> set ks) rc)"

definition merge_columns :: "string list \<Rightarrow> string list \<Rightarrow> string list \<Rightarrow> string list" where
  "merge_columns ks lc rc = left_labels ks lc rc @ right_labels ks lc rc"

text \<open>
  A position whose new label repeats an earlier new label while its old label repeats no
  earlier old label: the duplicate that the suffixes have caused.
\<close>

definition caused_duplicate :: "string list \<Rightarrow> string list \<Rightarrow> bool" where
  "caused_duplicate old new =
     list_ex (\<lambda>p. new ! p \<in> set (take p new) \<and> old ! p \<notin> set (take p old)) [0..<length old]"

definition suffix_collision :: "string list \<Rightarrow> string list \<Rightarrow> string list \<Rightarrow> bool" where
  "suffix_collision ks lc rc =
     (caused_duplicate lc (left_labels ks lc rc) \<or>
      caused_duplicate (filter (\<lambda>c. c \<notin> set ks) rc) (right_labels ks lc rc))"

definition matched_row :: "string list \<Rightarrow> string list \<Rightarrow> 'n cell list \<Rightarrow> 'n cell list \<Rightarrow> 'n cell list" where
  "matched_row ks rc l r = l @ map (\<lambda>j. r ! j) (rest_positions ks rc)"

definition left_only_row :: "string list \<Rightarrow> string list \<Rightarrow> 'n cell list \<Rightarrow> 'n cell list" where
  "left_only_row ks rc l = l @ replicate (length (rest_positions ks rc)) NA"

definition right_only_row :: "string list \<Rightarrow> string list \<Rightarrow> string list \<Rightarrow> 'n cell list \<Rightarrow> 'n cell list" where
  "right_only_row ks lc rc r =
     map (\<lambda>c. if c \<in> set ks then r ! label_index c rc else NA) lc @
     map (\<lambda>j. r ! j) (rest_positions ks rc)"

definition rows_from_left :: "bool \<Rightarrow> string list \<Rightarrow> 'n DataFrame \<Rightarrow> 'n DataFrame \<Rightarrow> 'n cell list list" where
  "rows_from_left keep ks left right =
     concat (map (\<lambda>l.
       (case filter (\<lambda>r. key_values ks (columns left) l = key_values ks (columns right) r)
               (rows right) of
          [] \<Rightarrow> (if keep then [left_only_row ks (columns right) l] else [])
        | ms \<Rightarrow> map (matched_row ks (columns right) l) ms)) (rows left))"

definition rows_from_right :: "string list \<Rightarrow> 'n DataFrame \<Rightarrow> 'n DataFrame \<Rightarrow> 'n cell list list" where
  "rows_from_right ks left right =
     concat (map (\<lambda>r.
       (case filter (\<lambda>l. key_values ks (columns left) l = key_values ks (columns right) r)
               (rows left) of
          [] \<Rightarrow> [right_only_row ks (columns left) (columns right) r]
        | ms \<Rightarrow> map (\<lambda>l. matched_row ks (columns right) l r) ms)) (rows right))"

definition unmatched_right :: "string list \<Rightarrow> 'n DataFrame \<Rightarrow> 'n DataFrame \<Rightarrow> 'n cell list list" where
  "unmatched_right ks left right =
     map (right_only_row ks (columns left) (columns right))
       (filter (\<lambda>r. list_all
          (\<lambda>l. key_values ks (columns left) l \<noteq> key_values ks (columns right) r) (rows left))
        (rows right))"

text \<open>The order of the keys of an outer join, and a stable insertion sort by it.\<close>

fun string_le :: "string \<Rightarrow> string \<Rightarrow> bool" where
  "string_le [] t = True"
| "string_le (c # s) [] = False"
| "string_le (c # s) (d # t) =
     (if c = d then string_le s t else (of_char c :: nat) < of_char d)"

fun cell_le :: "('n::linorder) cell \<Rightarrow> 'n cell \<Rightarrow> bool" where
  "cell_le (Num a) (Num b) = (a \<le> b)"
| "cell_le (Num a) (Str t) = True"
| "cell_le (Num a) NA = True"
| "cell_le (Str s) (Num b) = False"
| "cell_le (Str s) (Str t) = string_le s t"
| "cell_le (Str s) NA = True"
| "cell_le NA (Num b) = False"
| "cell_le NA (Str t) = False"
| "cell_le NA NA = True"

fun key_le :: "('n::linorder) cell list \<Rightarrow> 'n cell list \<Rightarrow> bool" where
  "key_le [] ys = True"
| "key_le (x # xs) [] = False"
| "key_le (x # xs) (y # ys) = (if x = y then key_le xs ys else cell_le x y)"

fun insert_row ::
  "(('n::linorder) cell list \<Rightarrow> 'n cell list) \<Rightarrow> 'n cell list \<Rightarrow> 'n cell list list \<Rightarrow>
     'n cell list list" where
  "insert_row key x [] = [x]"
| "insert_row key x (y # ys) =
     (if key_le (key x) (key y) then x # y # ys else y # insert_row key x ys)"

definition sort_rows ::
  "(('n::linorder) cell list \<Rightarrow> 'n cell list) \<Rightarrow> 'n cell list list \<Rightarrow> 'n cell list list" where
  "sort_rows key rs = foldr (insert_row key) rs []"

definition merge ::
  "('n::linorder) DataFrame \<Rightarrow> 'n DataFrame \<Rightarrow> string list \<Rightarrow> string \<Rightarrow> error + 'n DataFrame" where
  "merge left right ks h =
     (if h \<in> {''inner'', ''left'', ''right'', ''outer''} then
        (if ks = [] then Inl IndexError
         else
           (case check_keys ks (columns left) (columns right) of
              Some e \<Rightarrow> Inl e
            | None \<Rightarrow>
                (if key_dtypes_clash ks left right then Inl ValueError
                 else if suffix_collision ks (columns left) (columns right) then Inl ValueError
                 else
                   Inr \<lparr>columns = merge_columns ks (columns left) (columns right),
                        rows =
                          (if h = ''inner'' then rows_from_left False ks left right
                           else if h = ''left'' then rows_from_left True ks left right
                           else if h = ''right'' then rows_from_right ks left right
                           else sort_rows (key_values ks (columns left))
                                  (rows_from_left True ks left right @
                                   unmatched_right ks left right))\<rparr>)))
      else Inl ValueError)"

section \<open>The run\<close>

text \<open>
  \<^verbatim>\<open>eval(tr["name"])\<close>: the string is evaluated as a Python expression in the scope of
  \<^verbatim>\<open>ETL.run\<close>. The module binds \<^verbatim>\<open>rename\<close> and \<^verbatim>\<open>set_types\<close>, and no local
  variable of \<^verbatim>\<open>run\<close> hides them; looking either name up changes nothing, and the
  function found leaves the destination and the other tables alone. (\<^verbatim>\<open>set_types\<close>
  assigns into the frame it is given; \<^verbatim>\<open>run\<close> replaces that entry by the result, or
  stops at the exception and reads no table again.) Every other string is left to the
  interpreter.
\<close>

definition pure_callable :: "('n DataFrame \<Rightarrow> params \<Rightarrow> error + 'n DataFrame) \<Rightarrow> 'n callable" where
  "pure_callable f = (\<lambda>df ps st. (f df ps, st))"

definition py_eval ::
  "'n runtime \<Rightarrow> string \<Rightarrow> scope \<Rightarrow> 'n state \<Rightarrow> (error + 'n callable) \<times> 'n state" where
  "py_eval rt s sc st =
     (if s = ''rename'' then (Inr (pure_callable rename), st)
      else if s = ''set_types'' then (Inr (pure_callable (set_types rt)), st)
      else eval_expression rt s sc st)"

text \<open>
  Line 114: the callee \<^verbatim>\<open>eval(tr["name"])\<close> is evaluated before the argument
  \<^verbatim>\<open>source_data_dct[table_name]\<close>, and the dictionary entry is replaced after the call
  has returned. An exception leaves the state as the evaluation or the call had made it.
\<close>

definition transform ::
  "'n runtime \<Rightarrow> TableTransformationSpec \<Rightarrow> TransformationStep \<Rightarrow> 'n state \<Rightarrow>
     (error + unit) \<times> 'n state" where
  "transform rt tables_t tr st =
     (case py_eval rt (name tr) \<lparr>scope_tables_t = tables_t, scope_tr = tr\<rparr> st of
        (Inl e, st1) \<Rightarrow> (Inl e, st1)
      | (Inr f, st1) \<Rightarrow>
          (case source_data_dct st1 (table_name tables_t) of
             None \<Rightarrow> (Inl (KeyError (table_name tables_t)), st1)
           | Some df \<Rightarrow>
               (case f df (parameters tr) st1 of
                  (Inl e, st2) \<Rightarrow> (Inl e, st2)
                | (Inr df', st2) \<Rightarrow>
                    (Inr (),
                     st2\<lparr>source_data_dct :=
                           (source_data_dct st2)(table_name tables_t \<mapsto> df')\<rparr>))))"

fun transform_table ::
  "'n runtime \<Rightarrow> TableTransformationSpec \<Rightarrow> TransformationStep list \<Rightarrow> 'n state \<Rightarrow>
     (error + unit) \<times> 'n state" where
  "transform_table rt tables_t [] st = (Inr (), st)"
| "transform_table rt tables_t (tr # trs) st =
     (case transform rt tables_t tr st of
        (Inl e, st1) \<Rightarrow> (Inl e, st1)
      | (Inr u, st1) \<Rightarrow> transform_table rt tables_t trs st1)"

fun table_transformations ::
  "'n runtime \<Rightarrow> TableTransformationSpec list \<Rightarrow> 'n state \<Rightarrow> (error + unit) \<times> 'n state" where
  "table_transformations rt [] st = (Inr (), st)"
| "table_transformations rt (tables_t # ts) st =
     (case transform_table rt tables_t (transformations tables_t) st of
        (Inl e, st1) \<Rightarrow> (Inl e, st1)
      | (Inr u, st1) \<Rightarrow> table_transformations rt ts st1)"

text \<open>
  Line 117. The receiver \<^verbatim>\<open>source_data_dct[source_1]\<close> is looked up before the argument
  \<^verbatim>\<open>source_data_dct[source_2]\<close>; a missing dictionary key raises KeyError.
\<close>

definition join_tables ::
  "(string \<rightharpoonup> ('n::linorder) DataFrame) \<Rightarrow> JoinSpec \<Rightarrow> error + 'n DataFrame" where
  "join_tables sdd join_t =
     (case sdd (source_1 join_t) of
        None \<Rightarrow> Inl (KeyError (source_1 join_t))
      | Some l \<Rightarrow>
          (case sdd (source_2 join_t) of
             None \<Rightarrow> Inl (KeyError (source_2 join_t))
           | Some r \<Rightarrow> merge l r (on join_t) (how join_t)))"

text \<open>
  The loop of lines 116-117 assigns the local variable \<^verbatim>\<open>merged\<close> in every iteration;
  \<open>None\<close> is the variable while it is unbound. A join changes neither the tables nor the
  destination.
\<close>

fun joins ::
  "(string \<rightharpoonup> ('n::linorder) DataFrame) \<Rightarrow> 'n DataFrame option \<Rightarrow> JoinSpec list \<Rightarrow>
     error + 'n DataFrame option" where
  "joins sdd merged [] = Inr merged"
| "joins sdd merged (join_t # js) =
     (case join_tables sdd join_t of
        Inl e \<Rightarrow> Inl e
      | Inr m \<Rightarrow> joins sdd (Some m) js)"

text \<open>Lines 107-108: one source per entry of \<^verbatim>\<open>source.data\<close>, through the factory.\<close>

definition create_source :: "'n runtime \<Rightarrow> string \<Rightarrow> string \<Rightarrow> error + 'n DataFrame" where
  "create_source rt st path = (if st = ''csv'' then read_csv_dir rt path else Inl ValueError)"

fun get_data ::
  "'n runtime \<Rightarrow> string \<Rightarrow> (string \<times> string) list \<Rightarrow> (string \<rightharpoonup> 'n DataFrame) \<Rightarrow>
     error + (string \<rightharpoonup> 'n DataFrame)" where
  "get_data rt st [] sdd = Inr sdd"
| "get_data rt st ((k, path) # src) sdd =
     (case create_source rt st path of
        Inl e \<Rightarrow> Inl e
      | Inr df \<Rightarrow> get_data rt st src (sdd(k \<mapsto> df)))"

text \<open>
  \<^verbatim>\<open>write_data\<close> appends the frame to the destination; the database connection and its
  failures are outside the model.
\<close>

definition write_data :: "'n DataFrame list \<Rightarrow> 'n DataFrame \<Rightarrow> 'n DataFrame list" where
  "write_data dest data = dest @ [data]"

text \<open>
  Lines 109-117, from the loaded tables on: the table transformations and the joins.
  Reading \<^verbatim>\<open>merged\<close> while it is unbound raises UnboundLocalError.
\<close>

definition pipeline ::
  "('n::linorder) runtime \<Rightarrow> configuration \<Rightarrow> 'n state \<Rightarrow> (error + 'n DataFrame) \<times> 'n state" where
  "pipeline rt conf st =
     (case table_transformations rt (tables conf) st of
        (Inl e, st1) \<Rightarrow> (Inl e, st1)
      | (Inr u, st1) \<Rightarrow>
          (case joins (source_data_dct st1) None (join conf) of
             Inl e \<Rightarrow> (Inl e, st1)
           | Inr None \<Rightarrow> (Inl (UnboundLocalError ''merged''), st1)
           | Inr (Some merged) \<Rightarrow> (Inr merged, st1)))"

text \<open>
  \<^verbatim>\<open>ETL.run\<close> on a destination \<open>dest\<close>: the sources are loaded into an empty dictionary,
  the pipeline runs, and line 118 writes the merged frame. The result is the exception
  that ended the run, if any, and the destination as the run left it.
\<close>

definition run ::
  "('n::linorder) runtime \<Rightarrow> configuration \<Rightarrow> 'n DataFrame list \<Rightarrow>
     (error + unit) \<times> 'n DataFrame list" where
  "run rt conf dest =
     (case get_data rt (source_type conf) (source_data conf) Map.empty of
        Inl e \<Rightarrow> (Inl e, dest)
      | Inr sdd \<Rightarrow>
          (case pipeline rt conf \<lparr>source_data_dct = sdd, destination = dest\<rparr> of
             (Inl e, st1) \<Rightarrow> (Inl e, destination st1)
           | (Inr merged, st1) \<Rightarrow> (Inr (), write_data (destination st1) merged)))"


section \<open>Example inputs\<close>

text \<open>
  The two tables of the specification's join example, and an interpreter state around
  them. Three kinds of expression are evaluated: a lambda that returns its frame; a list
  display that writes the current table to the destination and then reads an unbound
  name; and, for every other string, an unbound name. Strings of decimal digits denote
  integers, and one integer beyond \<open>2\<^sup>5\<^sup>3\<close> is rounded as a float64; \<^verbatim>\<open>astype("int")\<close>
  converts a digit string and raises ValueError otherwise, \<^verbatim>\<open>astype("object")\<close> keeps
  every value; two directories hold the tables.
\<close>

definition table_A :: "int DataFrame" where
  "table_A = \<lparr>columns = [''id'', ''v''], rows = [[Num 1, Str ''a''], [Num 2, Str ''b'']]\<rparr>"

definition table_B :: "int DataFrame" where
  "table_B = \<lparr>columns = [''id'', ''w''], rows = [[Num 2, Str ''x''], [Num 3, Str ''y'']]\<rparr>"

definition parse_digits :: "string \<Rightarrow> int option" where
  "parse_digits s =
     (if s \<noteq> [] \<and> list_all (\<lambda>c. c \<in> set ''0123456789'') s
      then Some (foldl (\<lambda>a c. 10 * a + (int (of_char c) - 48)) 0 s)
      else None)"

definition write_then_unbound :: string where
  "write_then_unbound =
     ''[self.destination.write_data(source_data_dct[table_name]), no_such_transformation][1]''"

definition example_eval ::
  "string \<Rightarrow> scope \<Rightarrow> int state \<Rightarrow> (error + int callable) \<times> int state" where
  "example_eval s sc st =
     (if s = ''lambda df, parameters: df'' then (Inr (\<lambda>df ps st1. (Inr df, st1)), st)
      else if s = write_then_unbound then
        (case source_data_dct st (table_name (scope_tables_t sc)) of
           None \<Rightarrow> (Inl (KeyError (table_name (scope_tables_t sc))), st)
         | Some df \<Rightarrow>
             (Inl (NameError ''no_such_transformation''),
              st\<lparr>destination := write_data (destination st) df\<rparr>))
      else (Inl (NameError s), st))"

definition example_astype :: "string \<Rightarrow> error + (int cell \<Rightarrow> error + int cell)" where
  "example_astype t =
     (if t = ''object'' then Inr (\<lambda>c. Inr c)
      else if t = ''int'' then
        Inr (\<lambda>c. case c of
                   NA \<Rightarrow> Inl ValueError
                 | Num n \<Rightarrow> Inr (Num n)
                 | Str s \<Rightarrow> (case parse_digits s of None \<Rightarrow> Inl ValueError | Some n \<Rightarrow> Inr (Num n)))
      else Inl TypeError)"

definition example_runtime :: "int runtime" where
  "example_runtime =
     \<lparr>eval_expression = example_eval,
      parse_numeric = parse_digits,
      is_int = (\<lambda>n. True),
      to_float = (\<lambda>n. if n = 9007199254740993 then 9007199254740992 else n),
      astype_cell = example_astype,
      read_csv_dir =
        (\<lambda>p. if p = ''data/A'' then Inr table_A
             else if p = ''data/B'' then Inr table_B
             else Inl (OtherError ''FileNotFoundError''))\<rparr>"

definition example_conf :: "TransformationStep list \<Rightarrow> JoinSpec list \<Rightarrow> configuration" where
  "example_conf trs js =
     \<lparr>source_type = ''csv'',
      source_data = [(''A'', ''data/A''), (''B'', ''data/B'')],
      tables = [\<lparr>table_name = ''A'', transformations = trs\<rparr>],
      join = js\<rparr>"

definition join_AB :: "string \<Rightarrow> JoinSpec" where
  "join_AB h = \<lparr>source_1 = ''A'', source_2 = ''B'', on = [''id''], how = h\<rparr>"


definition tables_AB :: "string \<rightharpoonup> int DataFrame" where
  "tables_AB = [''A'' \<mapsto> table_A, ''B'' \<mapsto> table_B]"






definition example_mapping :: params where
  "example_mapping = [(''id'', ''key''), (''v'', ''value''), (''missing'', ''m'')]"

definition table_mixed :: "int DataFrame" where
  "table_mixed =
     \<lparr>columns = [''qty'', ''note'', ''price'', ''code''],
      rows = [[Str ''1'', Str ''first'', Str ''9007199254740993'', Str ''7''],
              [Str ''n/a'', Str ''second'', Str ''oops'', Str ''x''],
              [Str ''2'', Str ''third'', Str ''3'', Str ''8''],
              [Num 9007199254740993, Str ''fourth'', Str ''1'', Str ''9'']]\<rparr>"

definition numeric_params :: params where
  "numeric_params = [(''qty'', ''to_numeric''), (''price'', ''to_numeric'')]"

definition mixed_params :: params where
  "mixed_params = [(''qty'', ''to_numeric''), (''code'', ''int''), (''price'', ''to_numeric'')]"

definition table_numeric :: "int DataFrame" where
  "table_numeric =
     \<lparr>columns = [''qty'', ''note'', ''price'', ''code''],
      rows = [[Num 1, Str ''first'', Num 9007199254740993, Str ''7''],
              [Num 2, Str ''third'', Num 3, Str ''8''],
              [Num 9007199254740992, Str ''fourth'', Num 1, Str ''9'']]\<rparr>"

definition table_coerced :: "int DataFrame" where
  "table_coerced =
     \<lparr>columns = [''qty'', ''note'', ''price'', ''code''],
      rows = [[Num 1, Str ''first'', Num 9007199254740993, Num 7],
              [Num 2, Str ''third'', Num 3, Num 8],
              [Num 9007199254740992, Str ''fourth'', Num 1, Num 9]]\<rparr>"

section \<open>The joins and the output\<close>






text \<open>
  C3. With an empty join list the loop body never runs, \<^verbatim>\<open>merged\<close> is never assigned, and
  line 118 raises UnboundLocalError: here for the two example tables and no join.
\<close>

theorem no_join_unbound_local:
  "run example_runtime (example_conf [] []) [] = (Inl (UnboundLocalError ''merged''), [])"
  by code_simp

section \<open>The table transformations\<close>

text \<open>
  C9. A table specification with an empty transformation list leaves the state, and so
  the entry of its table, as it was: alone, and in front of any further specifications.
\<close>

theorem empty_transformation_list_identity:
  "transform_table rt tables_t [] st = (Inr (), st) \<and>
   table_transformations rt (\<lparr>table_name = tn, transformations = []\<rparr> # ts) st =
     table_transformations rt ts st"
  by simp










section \<open>Joins on the table set\<close>





text \<open>
  C7. The join example of the specification, through line 117: the inner join has the one
  row of key 2, the left join the two rows of the left table with \<^verbatim>\<open>w\<close> missing at key
  1, the outer join three rows, one per key.
\<close>

theorem join_example:
  "join_tables tables_AB (join_AB ''inner'') =
     Inr \<lparr>columns = [''id'', ''v'', ''w''], rows = [[Num 2, Str ''b'', Str ''x'']]\<rparr> \<and>
   join_tables tables_AB (join_AB ''left'') =
     Inr \<lparr>columns = [''id'', ''v'', ''w''],
          rows = [[Num 1, Str ''a'', NA], [Num 2, Str ''b'', Str ''x'']]\<rparr> \<and>
   (\<exists>out. join_tables tables_AB (join_AB ''outer'') = Inr out \<and>
      columns out = [''id'', ''v'', ''w''] \<and> length (rows out) = 3 \<and>
      set (rows out) =
        {[Num 1, Str ''a'', NA], [Num 2, Str ''b'', Str ''x''], [Num 3, NA, Str ''y'']})"
proof -
  have "join_tables tables_AB (join_AB ''outer'') =
     Inr \<lparr>columns = [''id'', ''v'', ''w''],
          rows = [[Num 1, Str ''a'', NA], [Num 2, Str ''b'', Str ''x''],
                  [Num 3, NA, Str ''y'']]\<rparr>"
    by code_simp
  moreover have "join_tables tables_AB (join_AB ''inner'') =
     Inr \<lparr>columns = [''id'', ''v'', ''w''], rows = [[Num 2, Str ''b'', Str ''x'']]\<rparr>"
    by code_simp
  moreover have "join_tables tables_AB (join_AB ''left'') =
     Inr \<lparr>columns = [''id'', ''v'', ''w''],
          rows = [[Num 1, Str ''a'', NA], [Num 2, Str ''b'', Str ''x'']]\<rparr>"
    by code_simp
  ultimately show ?thesis by simp
qed

section \<open>Renaming\<close>

lemma rename_label_restrict:
  "c \<in> set cs \<Longrightarrow>
     rename_label (filter (\<lambda>(old, new). old \<in> set cs) ps) c = rename_label ps c"
  by (induction ps) (auto simp: rename_label_def)

text \<open>
  C4, as the program has it. \<^verbatim>\<open>rename\<close> never fails: every label that is an old name
  becomes its new name, every other label and every row stays, and the old names that
  are no labels of the table make no difference.
\<close>

theorem rename_never_fails:
  "\<exists>df'. rename df ps = Inr df' \<and> rows df' = rows df \<and>
     columns df' = map (\<lambda>c. case map_of ps c of None \<Rightarrow> c | Some n \<Rightarrow> n) (columns df) \<and>
     rename df (filter (\<lambda>(old, new). old \<in> set (columns df)) ps) = Inr df'"
proof -
  have "map (rename_label (filter (\<lambda>(old, new). old \<in> set (columns df)) ps)) (columns df) =
        map (rename_label ps) (columns df)"
    by (rule map_cong) (simp_all add: rename_label_restrict)
  then show ?thesis
    by (simp add: rename_def rename_label_def[abs_def])
qed

theorem rename_absent_counterexample:
  "rename table_A example_mapping =
     Inr \<lparr>columns = [''key'', ''value''], rows = [[Num 1, Str ''a''], [Num 2, Str ''b'']]\<rparr> \<and>
   rename table_A example_mapping \<noteq> Inl ColumnNotFoundError"
  by (simp add: rename_def rename_label_def table_A_def example_mapping_def)

lemma map_of_inverse_Some:
  "distinct (map snd ps) \<Longrightarrow> map_of ps c = Some n \<Longrightarrow>
     map_of (inverse_mapping ps) n = Some c"
proof (induction ps)
  case Nil
  then show ?case by simp
next
  case (Cons p ps)
  obtain k v where p: "p = (k, v)" by (cases p)
  show ?case
  proof (cases "k = c")
    case True
    with Cons.prems p show ?thesis by (simp add: inverse_mapping_def)
  next
    case False
    with Cons.prems p have m: "map_of ps c = Some n" by simp
    then have "(c, n) \<in> set ps" by (rule map_of_SomeD)
    then have "n \<in> snd ` set ps" by force
    with Cons.prems(1) p have "n \<noteq> v" by auto
    moreover from Cons.IH m Cons.prems(1) have "map_of (inverse_mapping ps) n = Some c"
      by simp
    ultimately show ?thesis using p by (simp add: inverse_mapping_def)
  qed
qed

lemma map_of_inverse_None:
  "c \<notin> set (map snd ps) \<Longrightarrow> map_of (inverse_mapping ps) c = None"
  by (induction ps) (auto simp: inverse_mapping_def)

lemma rename_label_inverse:
  assumes "distinct (map snd ps)" and "c \<notin> set (map snd ps)"
  shows "rename_label (inverse_mapping ps) (rename_label ps c) = c"
proof (cases "map_of ps c")
  case None
  with assms(2) show ?thesis
    by (simp add: rename_label_def map_of_inverse_None)
next
  case (Some n)
  with map_of_inverse_Some[OF assms(1) Some] show ?thesis
    by (simp add: rename_label_def)
qed

text \<open>
  C8. When the new names are distinct, so that the mapping has an inverse, and none of
  them labels a column of the table, renaming and then renaming with the inverse mapping
  gives the table back.
\<close>

theorem rename_round_trip:
  assumes "distinct (map snd ps)" and "set (columns df) \<inter> set (map snd ps) = {}"
  shows "\<exists>df'. rename df ps = Inr df' \<and> rename df' (inverse_mapping ps) = Inr df"
proof -
  have "map (rename_label (inverse_mapping ps) \<circ> rename_label ps) (columns df) = columns df"
  proof (rule map_idI)
    fix c assume "c \<in> set (columns df)"
    with assms(2) have "c \<notin> set (map snd ps)" by auto
    with assms(1) show "(rename_label (inverse_mapping ps) \<circ> rename_label ps) c = c"
      by (simp add: rename_label_inverse)
  qed
  then show ?thesis by (simp add: rename_def)
qed

theorem rename_round_trip_witness:
  "distinct (map snd example_mapping) \<and>
   set (columns table_A) \<inter> set (map snd example_mapping) = {} \<and>
   rename table_A example_mapping =
     Inr \<lparr>columns = [''key'', ''value''], rows = [[Num 1, Str ''a''], [Num 2, Str ''b'']]\<rparr> \<and>
   rename \<lparr>columns = [''key'', ''value''], rows = [[Num 1, Str ''a''], [Num 2, Str ''b'']]\<rparr>
     (inverse_mapping example_mapping) = Inr table_A"
proof -
  have h1: "distinct (map snd example_mapping)" by (simp add: example_mapping_def)
  have h2: "set (columns table_A) \<inter> set (map snd example_mapping) = {}"
    by (simp add: table_A_def example_mapping_def)
  have r: "rename table_A example_mapping =
     Inr \<lparr>columns = [''key'', ''value''], rows = [[Num 1, Str ''a''], [Num 2, Str ''b'']]\<rparr>"
    by (simp add: rename_def rename_label_def table_A_def example_mapping_def)
  from rename_round_trip[OF h1 h2] h1 h2 r show ?thesis
    by auto
qed

section \<open>Setting types\<close>

text \<open>
  \<^verbatim>\<open>set_types\<close> never changes the labels. The proof goes along the items of the
  dictionary from the first to the last: the rows of the frame so far are, one for one and
  in order, the input rows that passed the items so far, each cell as \<open>expected_cell\<close>
  says; an item touches only the columns its key labels, and the keys are distinct.
\<close>

lemma col_positions_iff: "j \<in> set (col_positions k cs) \<longleftrightarrow> j < length cs \<and> cs ! j = k"
  by (auto simp: col_positions_def)

lemma col_positions_distinct: "distinct (col_positions k cs)"
  by (simp add: col_positions_def)

lemma col_positions_single:
  assumes "col_positions k cs = [i]"
  shows "i < length cs \<and> cs ! i = k \<and> (\<forall>j<length cs. cs ! j = k \<longrightarrow> j = i)"
proof -
  have s: "\<And>j. j \<in> set [i] \<longleftrightarrow> j < length cs \<and> cs ! j = k"
    using col_positions_iff[of _ k cs] assms by simp
  from s[of i] have "i < length cs \<and> cs ! i = k" by simp
  moreover have "\<forall>j<length cs. cs ! j = k \<longrightarrow> j = i"
    using s by simp
  ultimately show ?thesis by simp
qed

lemma wf_frame_rows: "wf_frame df \<longleftrightarrow> (\<forall>r\<in>set (rows df). length r = length (columns df))"
  by (simp add: wf_frame_def list_all_iff)

lemma parsable_row_iff:
  "parsable_row parse cs ps r \<longleftrightarrow>
     (\<forall>j<length cs. cs ! j \<in> set (numeric_keys ps) \<longrightarrow> parse_cell parse (r ! j) \<noteq> NA)"
  by (auto simp: parsable_row_def list_all_iff)

lemma numeric_keys_subset: "set (numeric_keys ps) \<subseteq> set (map fst ps)"
  by (auto simp: numeric_keys_def)

lemma parsable_row_append:
  "parsable_row parse cs (ps1 @ ps2) r \<longleftrightarrow>
     parsable_row parse cs ps1 r \<and> parsable_row parse cs ps2 r"
  by (auto simp: parsable_row_iff numeric_keys_def)

lemma parsable_row_Nil: "parsable_row parse cs [] r"
  by (simp add: parsable_row_iff numeric_keys_def)

lemma parsable_single_numeric:
  assumes "col_positions k cs = [i]"
  shows "parsable_row parse cs [(k, ''to_numeric'')] r \<longleftrightarrow> parse_cell parse (r ! i) \<noteq> NA"
proof -
  from col_positions_single[OF assms] have p1: "i < length cs" and p2: "cs ! i = k"
    and p3: "\<forall>j<length cs. cs ! j = k \<longrightarrow> j = i" by simp_all
  have "parsable_row parse cs [(k, ''to_numeric'')] r \<longleftrightarrow>
        (\<forall>j<length cs. cs ! j = k \<longrightarrow> parse_cell parse (r ! j) \<noteq> NA)"
    by (simp add: parsable_row_iff numeric_keys_def)
  also have "\<dots> \<longleftrightarrow> parse_cell parse (r ! i) \<noteq> NA"
    using p1 p2 p3 by blast
  finally show ?thesis .
qed

lemma parsable_single_cast:
  "t \<noteq> ''to_numeric'' \<Longrightarrow> parsable_row parse cs [(k, t)] r"
  by (simp add: parsable_row_iff numeric_keys_def)

lemma parsable_row_cong:
  "(\<And>j. j < length cs \<Longrightarrow> cs ! j \<in> set (numeric_keys ps) \<Longrightarrow> r' ! j = r ! j) \<Longrightarrow>
     parsable_row parse cs ps r' = parsable_row parse cs ps r"
  by (auto simp: parsable_row_iff)

lemma coerce_cell_NA:
  "coerce_cell rt col c = NA \<longleftrightarrow> parse_cell (parse_numeric rt) c = NA"
  by (cases "parse_cell (parse_numeric rt) c") (simp_all add: coerce_cell_def float_cell_def)

lemma assign_column:
  "map (\<lambda>(r, c). r[i := c]) (zip rs (map (\<lambda>r. g (r ! i)) rs)) = map (\<lambda>r. r[i := g (r ! i)]) rs"
  by (induction rs) simp_all

lemma to_numeric_cells: "to_numeric rt col = map (coerce_cell rt col) col"
proof (cases "list_all (\<lambda>x. int_cell rt (parse_cell (parse_numeric rt) x)) col")
  case True
  then have "list_all (int_cell rt) (map (parse_cell (parse_numeric rt)) col)"
    by (simp add: list_all_iff)
  with True show ?thesis by (simp add: to_numeric_def coerce_cell_def)
next
  case False
  then have "\<not> list_all (int_cell rt) (map (parse_cell (parse_numeric rt)) col)"
    by (simp add: list_all_iff)
  with False show ?thesis by (simp add: to_numeric_def coerce_cell_def)
qed

lemma to_numeric_column:
  "to_numeric rt (map (\<lambda>r. r ! i) rs) =
     map (\<lambda>r. coerce_cell rt (map (\<lambda>r. r ! i) rs) (r ! i)) rs"
  by (simp add: to_numeric_cells o_def)

lemma set_type_numeric:
  assumes pos: "col_positions k (columns df) = [i]"
    and wf: "wf_frame df" and st: "set_type rt df k ''to_numeric'' = Inr d"
  shows "columns d = columns df \<and>
    rows d = map (\<lambda>r. r[i := coerce_cell rt (map (\<lambda>r. r ! i) (rows df)) (r ! i)])
               (filter (\<lambda>r. parse_cell (parse_numeric rt) (r ! i) \<noteq> NA) (rows df))"
proof -
  let ?g = "coerce_cell rt (map (\<lambda>r. r ! i) (rows df))"
  from col_positions_single[OF pos] have p1: "i < length (columns df)" by simp
  from st pos have d: "d = df\<lparr>rows := dropna i (map (\<lambda>(r, c). r[i := c])
      (zip (rows df) (to_numeric rt (map (\<lambda>r. r ! i) (rows df)))))\<rparr>"
    by (simp add: set_type_def)
  have "map (\<lambda>(r, c). r[i := c]) (zip (rows df) (to_numeric rt (map (\<lambda>r. r ! i) (rows df)))) =
        map (\<lambda>r. r[i := ?g (r ! i)]) (rows df)"
    by (simp only: to_numeric_column assign_column)
  moreover have "dropna i (map (\<lambda>r. r[i := ?g (r ! i)]) (rows df)) =
      map (\<lambda>r. r[i := ?g (r ! i)])
        (filter (\<lambda>r. parse_cell (parse_numeric rt) (r ! i) \<noteq> NA) (rows df))"
  proof -
    have "filter ((\<lambda>r. r ! i \<noteq> NA) \<circ> (\<lambda>r. r[i := ?g (r ! i)])) (rows df) =
          filter (\<lambda>r. parse_cell (parse_numeric rt) (r ! i) \<noteq> NA) (rows df)"
    proof (rule filter_cong[OF refl])
      fix r assume "r \<in> set (rows df)"
      with wf p1 have "i < length r" by (simp add: wf_frame_rows)
      then show "((\<lambda>r. r ! i \<noteq> NA) \<circ> (\<lambda>r. r[i := ?g (r ! i)])) r =
          (parse_cell (parse_numeric rt) (r ! i) \<noteq> NA)"
        by (simp add: coerce_cell_NA)
    qed
    then show ?thesis by (simp add: dropna_def filter_map)
  qed
  ultimately show ?thesis using d by simp
qed

lemma cast_column_rel:
  "cast_column f i rs = Inr rs' \<Longrightarrow>
     list_all2 (\<lambda>r r'. \<exists>y. f (r ! i) = Inr y \<and> r' = r[i := y]) rs rs'"
  by (induction rs arbitrary: rs') (auto split: sum.splits)

lemma cast_columns_rel:
  "cast_columns f ps rs = Inr rs' \<Longrightarrow> distinct ps \<Longrightarrow>
     list_all2 (\<lambda>r r'. length r' = length r \<and>
        (\<forall>j<length r. if j \<in> set ps then f (r ! j) = Inr (r' ! j) else r' ! j = r ! j)) rs rs'"
proof (induction ps arbitrary: rs)
  case Nil
  then show ?case by (simp add: list_all2_same)
next
  case (Cons i ps)
  from Cons.prems obtain rs1 where c: "cast_column f i rs = Inr rs1"
    and r: "cast_columns f ps rs1 = Inr rs'"
    by (auto split: sum.splits)
  from Cons.prems have i: "i \<notin> set ps" and d: "distinct ps" by simp_all
  let ?A = "\<lambda>r r'. \<exists>y. f (r ! i) = Inr y \<and> r' = r[i := y]"
  let ?B = "\<lambda>r r'. length r' = length r \<and>
        (\<forall>j<length r. if j \<in> set ps then f (r ! j) = Inr (r' ! j) else r' ! j = r ! j)"
  let ?C = "\<lambda>r r'. length r' = length r \<and>
        (\<forall>j<length r. if j \<in> set (i # ps) then f (r ! j) = Inr (r' ! j) else r' ! j = r ! j)"
  have "list_all2 (?A OO ?B) rs rs'"
    using cast_column_rel[OF c] Cons.IH[OF r d]
    by (simp only: list.rel_compp) (rule relcomppI)
  moreover have "\<And>r r'. (?A OO ?B) r r' \<Longrightarrow> ?C r r'"
  proof -
    fix r r' assume "(?A OO ?B) r r'"
    then obtain y where y: "f (r ! i) = Inr y" and b: "?B (r[i := y]) r'" by auto
    from b have l: "length r' = length r" by simp
    moreover have "\<forall>j<length r. if j \<in> set (i # ps) then f (r ! j) = Inr (r' ! j)
        else r' ! j = r ! j"
    proof (intro allI impI)
      fix j assume j: "j < length r"
      with b have bj: "if j \<in> set ps then f (r[i := y] ! j) = Inr (r' ! j)
          else r' ! j = r[i := y] ! j" by simp
      show "if j \<in> set (i # ps) then f (r ! j) = Inr (r' ! j) else r' ! j = r ! j"
      proof (cases "j = i")
        case True
        with bj i j y show ?thesis by (simp split: if_splits)
      next
        case False
        with bj show ?thesis by (simp split: if_splits)
      qed
    qed
    ultimately show "?C r r'" by simp
  qed
  ultimately show ?case by (rule list_all2_mono)
qed

lemma expected_cell_no_key:
  assumes "cs ! j \<notin> set (map fst ps)"
  shows "expected_cell rt cs rs ps j c c' \<longleftrightarrow> c' = c"
proof -
  have "\<And>x. x \<in> set ps \<Longrightarrow> (\<lambda>(k, t). k \<noteq> cs ! j) x"
    using assms by force
  then have d: "dropWhile (\<lambda>(k, t). k \<noteq> cs ! j) ps = []" by simp
  show ?thesis unfolding expected_cell_def d by simp
qed

lemma expected_cell_last:
  assumes "cs ! j = k" and "k \<notin> set (map fst ps)"
  shows "expected_cell rt cs rs (ps @ [(k, t)]) j c c' \<longleftrightarrow>
     (if t = ''to_numeric'' then
        c' = coerce_cell rt
               (map (\<lambda>r. r ! j) (filter (parsable_row (parse_numeric rt) cs ps) rs)) c
      else (case astype_cell rt t of Inl e \<Rightarrow> False | Inr f \<Rightarrow> f c = Inr c'))"
proof -
  have a: "\<And>x. x \<in> set ps \<Longrightarrow> (\<lambda>(k, t). k \<noteq> cs ! j) x"
    using assms by force
  then have d: "dropWhile (\<lambda>(k, t). k \<noteq> cs ! j) (ps @ [(k, t)]) = [(k, t)]"
    using assms(1) by (simp add: dropWhile_append2)
  have tw: "takeWhile (\<lambda>(k, t). k \<noteq> cs ! j) (ps @ [(k, t)]) = ps"
    using a assms(1) by (simp add: takeWhile_append2)
  show ?thesis unfolding expected_cell_def d tw by (simp add: coerce_cell_def)
qed

lemma expected_cell_other:
  assumes "cs ! j \<noteq> k"
  shows "expected_cell rt cs rs (ps @ [(k, t)]) j c c' \<longleftrightarrow> expected_cell rt cs rs ps j c c'"
proof (cases "cs ! j \<in> set (map fst ps)")
  case True
  then obtain x where x: "x \<in> set ps" and nx: "\<not> (\<lambda>(k, t). k \<noteq> cs ! j) x"
    by force
  have d: "dropWhile (\<lambda>(k, t). k \<noteq> cs ! j) (ps @ [(k, t)]) =
        dropWhile (\<lambda>(k, t). k \<noteq> cs ! j) ps @ [(k, t)]"
    using x nx by (rule dropWhile_append1)
  have tw: "takeWhile (\<lambda>(k, t). k \<noteq> cs ! j) (ps @ [(k, t)]) =
        takeWhile (\<lambda>(k, t). k \<noteq> cs ! j) ps"
    using x nx by (rule takeWhile_append1)
  have "dropWhile (\<lambda>(k, t). k \<noteq> cs ! j) ps \<noteq> []"
    using x nx by (auto simp: dropWhile_eq_Nil_conv)
  then obtain y ys where y: "dropWhile (\<lambda>(k, t). k \<noteq> cs ! j) ps = y # ys"
    by (cases "dropWhile (\<lambda>(k, t). k \<noteq> cs ! j) ps") auto
  show ?thesis unfolding expected_cell_def d tw y by simp
next
  case False
  then have a: "\<And>x. x \<in> set ps \<Longrightarrow> (\<lambda>(k, t). k \<noteq> cs ! j) x" by force
  then have d1: "dropWhile (\<lambda>(k, t). k \<noteq> cs ! j) (ps @ [(k, t)]) = []"
    using assms by (simp add: dropWhile_append2)
  from a have d2: "dropWhile (\<lambda>(k, t). k \<noteq> cs ! j) ps = []" by simp
  show ?thesis unfolding expected_cell_def d1 d2 by simp
qed

lemma expected_row_iff:
  "expected_row rt cs rs ps r r' \<longleftrightarrow>
     length r = length cs \<and> length r' = length cs \<and>
     (\<forall>j<length cs. expected_cell rt cs rs ps j (r ! j) (r' ! j))"
  by (auto simp: expected_row_def list_all_iff)

lemma list_all2_filter:
  "list_all2 R xs ys \<Longrightarrow> (\<And>x y. R x y \<Longrightarrow> P x = Q y) \<Longrightarrow>
     list_all2 R (filter P xs) (filter Q ys)"
  by (induction rule: list_all2_induct) auto

lemma list_all2_right:
  "list_all2 R xs ys \<Longrightarrow> (\<And>x y. R x y \<Longrightarrow> Q y) \<Longrightarrow> y \<in> set ys \<Longrightarrow> Q y"
  by (induction rule: list_all2_induct) auto

lemma list_all2_map_eq:
  "list_all2 R xs ys \<Longrightarrow> (\<And>x y. R x y \<Longrightarrow> f x = g y) \<Longrightarrow> map f xs = map g ys"
  by (induction rule: list_all2_induct) auto

lemma set_types_append:
  "set_types rt df (ps1 @ ps2) =
     (case set_types rt df ps1 of Inl e \<Rightarrow> Inl e | Inr d \<Rightarrow> set_types rt d ps2)"
  by (induction ps1 arbitrary: df) (auto split: sum.splits)

lemma set_type_columns:
  "set_type rt df k t = Inr d \<Longrightarrow> columns d = columns df"
  by (auto simp: set_type_def split: if_splits list.splits sum.splits)

lemma set_types_base:
  assumes "wf_frame df"
  shows "list_all2 (expected_row rt (columns df) (rows df) [])
           (filter (parsable_row (parse_numeric rt) (columns df) []) (rows df)) (rows df)"
proof -
  have "filter (parsable_row (parse_numeric rt) (columns df) []) (rows df) = rows df"
    by (simp add: parsable_row_Nil)
  moreover have "list_all2 (expected_row rt (columns df) (rows df) []) (rows df) (rows df)"
    unfolding list_all2_same
  proof
    fix r assume "r \<in> set (rows df)"
    with assms have "length r = length (columns df)" by (simp add: wf_frame_rows)
    then show "expected_row rt (columns df) (rows df) [] r r"
      by (simp add: expected_row_iff expected_cell_no_key)
  qed
  ultimately show ?thesis by simp
qed

lemma set_types_step_numeric:
  fixes rt :: "'n runtime" and rs :: "'n cell list list"
  assumes k: "k \<notin> set (map fst ps)"
    and rel: "list_all2 (expected_row rt cs rs ps)
                (filter (parsable_row (parse_numeric rt) cs ps) rs) (rows d0)"
    and c0: "columns d0 = cs"
    and st: "set_type rt d0 k ''to_numeric'' = Inr d"
  shows "list_all2 (expected_row rt cs rs (ps @ [(k, ''to_numeric'')]))
           (filter (parsable_row (parse_numeric rt) cs (ps @ [(k, ''to_numeric'')])) rs) (rows d)"
proof -
  let ?parse = "parse_numeric rt"
  let ?S = "filter (parsable_row ?parse cs ps) rs"
  let ?R = "expected_row rt cs rs ps"
  from st c0 obtain i where pos: "col_positions k cs = [i]"
    by (auto simp: set_type_def split: list.splits)
  from col_positions_single[OF pos] have p1: "i < length cs" and p2: "cs ! i = k"
    and p3: "\<forall>j<length cs. cs ! j = k \<longrightarrow> j = i" by simp_all
  have same: "\<And>r r0. ?R r r0 \<Longrightarrow> r0 ! i = r ! i"
  proof -
    fix r r0 assume "?R r r0"
    then have "expected_cell rt cs rs ps i (r ! i) (r0 ! i)"
      using p1 by (simp add: expected_row_iff)
    then show "r0 ! i = r ! i"
      using k p2 by (simp add: expected_cell_no_key)
  qed
  have wf0: "wf_frame d0"
    unfolding wf_frame_rows c0
  proof
    fix r0 assume m: "r0 \<in> set (rows d0)"
    have "\<And>x y. expected_row rt cs rs ps x y \<Longrightarrow> length y = length cs"
      by (simp add: expected_row_iff)
    from list_all2_right[OF rel this m] show "length r0 = length cs" .
  qed
  have col: "map (\<lambda>r. r ! i) (rows d0) = map (\<lambda>r. r ! i) ?S"
    using list_all2_map_eq[OF rel, of "\<lambda>r. r ! i" "\<lambda>r. r ! i"] same by simp
  let ?u = "\<lambda>r0. r0[i := coerce_cell rt (map (\<lambda>r. r ! i) ?S) (r0 ! i)]"
  from set_type_numeric[OF _ wf0 st] pos c0 col
  have rows: "rows d = map ?u (filter (\<lambda>r. parse_cell ?parse (r ! i) \<noteq> NA) (rows d0))"
    by simp
  have f1: "list_all2 ?R (filter (\<lambda>r. parse_cell ?parse (r ! i) \<noteq> NA) ?S)
      (filter (\<lambda>r. parse_cell ?parse (r ! i) \<noteq> NA) (rows d0))"
    using rel by (rule list_all2_filter) (simp add: same)
  have f2: "filter (\<lambda>r. parse_cell ?parse (r ! i) \<noteq> NA) ?S =
        filter (parsable_row ?parse cs (ps @ [(k, ''to_numeric'')])) rs"
  proof -
    have "filter (\<lambda>r. parse_cell ?parse (r ! i) \<noteq> NA) ?S =
          filter (\<lambda>r. parsable_row ?parse cs ps r \<and> parse_cell ?parse (r ! i) \<noteq> NA) rs"
      by simp
    also have "\<dots> = filter (parsable_row ?parse cs (ps @ [(k, ''to_numeric'')])) rs"
      by (rule filter_cong[OF refl])
         (simp add: parsable_row_append parsable_single_numeric[OF pos])
    finally show ?thesis .
  qed
  have step: "\<And>r r0. ?R r r0 \<Longrightarrow> expected_row rt cs rs (ps @ [(k, ''to_numeric'')]) r (?u r0)"
  proof -
    fix r r0 assume R: "?R r r0"
    then have lr: "length r = length cs" and l0: "length r0 = length cs"
      and cells: "\<And>j. j < length cs \<Longrightarrow> expected_cell rt cs rs ps j (r ! j) (r0 ! j)"
      by (simp_all add: expected_row_iff)
    have "\<forall>j<length cs. expected_cell rt cs rs (ps @ [(k, ''to_numeric'')]) j (r ! j) (?u r0 ! j)"
    proof (intro allI impI)
      fix j assume j: "j < length cs"
      show "expected_cell rt cs rs (ps @ [(k, ''to_numeric'')]) j (r ! j) (?u r0 ! j)"
      proof (cases "j = i")
        case True
        have "?u r0 ! i = coerce_cell rt (map (\<lambda>r. r ! i) ?S) (r ! i)"
          using p1 l0 same[OF R] by simp
        with True show ?thesis
          using expected_cell_last[OF p2 k, of rt rs "''to_numeric''" "r ! i" "?u r0 ! i"]
          by simp
      next
        case False
        with p3 j have "cs ! j \<noteq> k" by blast
        moreover from False have "?u r0 ! j = r0 ! j" by simp
        ultimately show ?thesis
          using cells[OF j] by (simp add: expected_cell_other)
      qed
    qed
    with lr l0 show "expected_row rt cs rs (ps @ [(k, ''to_numeric'')]) r (?u r0)"
      by (simp add: expected_row_iff)
  qed
  have "list_all2 (\<lambda>r r0. expected_row rt cs rs (ps @ [(k, ''to_numeric'')]) r (?u r0))
      (filter (\<lambda>r. parse_cell ?parse (r ! i) \<noteq> NA) ?S)
      (filter (\<lambda>r. parse_cell ?parse (r ! i) \<noteq> NA) (rows d0))"
    using f1 step by (rule list_all2_mono)
  then show ?thesis
    unfolding rows f2[symmetric] by (simp add: list_all2_map2)
qed

lemma set_types_step_cast:
  fixes rt :: "'n runtime" and rs :: "'n cell list list"
  assumes k: "k \<notin> set (map fst ps)" and t: "t \<noteq> ''to_numeric''"
    and rel: "list_all2 (expected_row rt cs rs ps)
                (filter (parsable_row (parse_numeric rt) cs ps) rs) (rows d0)"
    and c0: "columns d0 = cs"
    and st: "set_type rt d0 k t = Inr d"
  shows "list_all2 (expected_row rt cs rs (ps @ [(k, t)]))
           (filter (parsable_row (parse_numeric rt) cs (ps @ [(k, t)])) rs) (rows d)"
proof -
  let ?parse = "parse_numeric rt"
  let ?S = "filter (parsable_row ?parse cs ps) rs"
  let ?R = "expected_row rt cs rs ps"
  let ?is = "col_positions k cs"
  from st t c0 obtain f where a: "astype_cell rt t = Inr f"
    and c: "cast_columns f ?is (rows d0) = Inr (rows d)"
    by (auto simp: set_type_def split: list.splits sum.splits)
  let ?C = "\<lambda>r r'. length r' = length r \<and>
        (\<forall>j<length r. if j \<in> set ?is then f (r ! j) = Inr (r' ! j) else r' ! j = r ! j)"
  from cast_columns_rel[OF c col_positions_distinct]
  have cr: "list_all2 ?C (rows d0) (rows d)" .
  have "list_all2 (?R OO ?C) ?S (rows d)"
    using rel cr by (simp only: list.rel_compp) (rule relcomppI)
  moreover have "\<And>r r'. (?R OO ?C) r r' \<Longrightarrow> expected_row rt cs rs (ps @ [(k, t)]) r r'"
  proof -
    fix r r' assume "(?R OO ?C) r r'"
    then obtain r0 where R: "?R r r0" and C: "?C r0 r'" by auto
    from R have lr: "length r = length cs" and l0: "length r0 = length cs"
      and cells: "\<And>j. j < length cs \<Longrightarrow> expected_cell rt cs rs ps j (r ! j) (r0 ! j)"
      by (simp_all add: expected_row_iff)
    from C l0 have l': "length r' = length cs" by simp
    have "\<forall>j<length cs. expected_cell rt cs rs (ps @ [(k, t)]) j (r ! j) (r' ! j)"
    proof (intro allI impI)
      fix j assume j: "j < length cs"
      from C j l0 have cj: "if j \<in> set ?is then f (r0 ! j) = Inr (r' ! j) else r' ! j = r0 ! j"
        by simp
      show "expected_cell rt cs rs (ps @ [(k, t)]) j (r ! j) (r' ! j)"
      proof (cases "cs ! j = k")
        case True
        with j have "j \<in> set ?is" by (simp add: col_positions_iff)
        with cj have fj: "f (r0 ! j) = Inr (r' ! j)" by simp
        from cells[OF j] True k have "r0 ! j = r ! j" by (simp add: expected_cell_no_key)
        with fj a t show ?thesis
          using expected_cell_last[OF True k, of rt rs t "r ! j" "r' ! j"] by simp
      next
        case False
        then have "j \<notin> set ?is" by (simp add: col_positions_iff)
        with cj have "r' ! j = r0 ! j" by simp
        with cells[OF j] False show ?thesis by (simp add: expected_cell_other)
      qed
    qed
    with lr l' show "expected_row rt cs rs (ps @ [(k, t)]) r r'"
      by (simp add: expected_row_iff)
  qed
  ultimately have "list_all2 (expected_row rt cs rs (ps @ [(k, t)])) ?S (rows d)"
    by (rule list_all2_mono)
  moreover have "filter (parsable_row ?parse cs (ps @ [(k, t)])) rs = ?S"
    by (rule filter_cong[OF refl]) (simp add: parsable_row_append parsable_single_cast[OF t])
  ultimately show ?thesis by simp
qed

lemma set_types_rows:
  assumes "distinct (map fst ps)" and "wf_frame df" and "set_types rt df ps = Inr d"
  shows "columns d = columns df \<and>
         list_all2 (expected_row rt (columns df) (rows df) ps)
           (filter (parsable_row (parse_numeric rt) (columns df) ps) (rows df)) (rows d)"
  using assms(1,3)
proof (induction ps arbitrary: d rule: rev_induct)
  case Nil
  then have "d = df" by simp
  with set_types_base[OF assms(2)] show ?case by simp
next
  case (snoc x ps)
  obtain k t where x: "x = (k, t)" by (cases x)
  from snoc.prems(1) x have k: "k \<notin> set (map fst ps)" and dist: "distinct (map fst ps)"
    by simp_all
  from snoc.prems(2) x obtain d0 where s0: "set_types rt df ps = Inr d0"
    and s1: "set_type rt d0 k t = Inr d"
    by (auto simp: set_types_append split: sum.splits)
  from snoc.IH[OF dist s0] have c0: "columns d0 = columns df"
    and rel: "list_all2 (expected_row rt (columns df) (rows df) ps)
           (filter (parsable_row (parse_numeric rt) (columns df) ps) (rows df)) (rows d0)"
    by simp_all
  from set_type_columns[OF s1] c0 have c: "columns d = columns df" by simp
  show ?case
  proof (cases "t = ''to_numeric''")
    case True
    with set_types_step_numeric[OF k rel c0] s1 c x show ?thesis by simp
  next
    case False
    with set_types_step_cast[OF k False rel c0 s1] c x show ?thesis by simp
  qed
qed

lemma set_type_key:
  assumes "set_type rt df k t = Inr d"
  shows "k \<in> set (columns df) \<and> (t \<noteq> ''to_numeric'' \<longrightarrow> (\<exists>f. astype_cell rt t = Inr f))"
proof -
  from assms have "col_positions k (columns df) \<noteq> []"
    by (auto simp: set_type_def split: if_splits)
  then obtain j where "j \<in> set (col_positions k (columns df))"
    by (cases "col_positions k (columns df)") auto
  then have "k \<in> set (columns df)" by (auto simp: col_positions_iff)
  moreover from assms have "t \<noteq> ''to_numeric'' \<longrightarrow> (\<exists>f. astype_cell rt t = Inr f)"
    by (auto simp: set_type_def split: if_splits list.splits sum.splits)
  ultimately show ?thesis by simp
qed

lemma set_types_keys:
  "set_types rt df ps = Inr d \<Longrightarrow> (k, t) \<in> set ps \<Longrightarrow>
     k \<in> set (columns df) \<and> (t \<noteq> ''to_numeric'' \<longrightarrow> (\<exists>f. astype_cell rt t = Inr f))"
proof (induction ps arbitrary: df)
  case Nil
  then show ?case by simp
next
  case (Cons p ps)
  obtain k0 t0 where p: "p = (k0, t0)" by (cases p)
  from Cons.prems(1) p obtain d1 where s1: "set_type rt df k0 t0 = Inr d1"
    and s2: "set_types rt d1 ps = Inr d"
    by (auto split: sum.splits)
  show ?case
  proof (cases "(k, t) = (k0, t0)")
    case True
    with set_type_key[OF s1] show ?thesis by simp
  next
    case False
    with Cons.prems(2) p have "(k, t) \<in> set ps" by auto
    from Cons.IH[OF s2 this] set_type_columns[OF s1] show ?thesis by simp
  qed
qed

text \<open>
  C5. For a dictionary of parameters and a frame with one cell per column in every row,
  when \<^verbatim>\<open>set_types\<close> returns:
  \<^item> the rows of the result are as many as the rows of the input that are a number, or
    parse as one, in every column mapped to \<^verbatim>\<open>"to_numeric"\<close>;
  \<^item> they are those rows, in order, with every cell as \<open>expected_cell\<close> says: coerced by
    \<^verbatim>\<open>pd.to_numeric\<close> within the column left by the items in front, cast by
    \<^verbatim>\<open>astype\<close> for any other type, unchanged under no key;
  \<^item> every key labels a column, and every other type resolved to a conversion;
  \<^item> for every split of the items, the later items were processed on the frame the
    earlier items returned, whose rows are as many as the input rows that pass the
    earlier items: the rows dropped before are absent when a later column is coerced.
\<close>

theorem set_types_sequential_drop:
  assumes "distinct (map fst ps)" and "wf_frame df" and "set_types rt df ps = Inr df'"
  shows "length (rows df') =
           length (filter (parsable_row (parse_numeric rt) (columns df) ps) (rows df)) \<and>
         list_all2 (expected_row rt (columns df) (rows df) ps)
           (filter (parsable_row (parse_numeric rt) (columns df) ps) (rows df)) (rows df') \<and>
         (\<forall>k t. (k, t) \<in> set ps \<longrightarrow>
            k \<in> set (columns df) \<and>
            (t \<noteq> ''to_numeric'' \<longrightarrow> (\<exists>f. astype_cell rt t = Inr f))) \<and>
         (\<forall>ps1 ps2. ps = ps1 @ ps2 \<longrightarrow>
            (\<exists>d. set_types rt df ps1 = Inr d \<and> set_types rt d ps2 = Inr df' \<and>
                 length (rows d) =
                   length (filter (parsable_row (parse_numeric rt) (columns df) ps1) (rows df))))"
proof (intro conjI allI impI)
  from set_types_rows[OF assms]
  show r: "list_all2 (expected_row rt (columns df) (rows df) ps)
           (filter (parsable_row (parse_numeric rt) (columns df) ps) (rows df)) (rows df')"
    by simp
  from list_all2_lengthD[OF r]
  show "length (rows df') =
      length (filter (parsable_row (parse_numeric rt) (columns df) ps) (rows df))"
    by simp
next
  fix k t assume "(k, t) \<in> set ps"
  with set_types_keys[OF assms(3)] show "k \<in> set (columns df)" by blast
next
  fix k t assume "(k, t) \<in> set ps" and "t \<noteq> ''to_numeric''"
  with set_types_keys[OF assms(3)] show "\<exists>f. astype_cell rt t = Inr f" by blast
next
  fix ps1 ps2 assume s: "ps = ps1 @ ps2"
  with assms(3) obtain d where d1: "set_types rt df ps1 = Inr d"
    and d2: "set_types rt d ps2 = Inr df'"
    by (auto simp: set_types_append split: sum.splits)
  from assms(1) s have "distinct (map fst ps1)" by simp
  from set_types_rows[OF this assms(2) d1]
  have "list_all2 (expected_row rt (columns df) (rows df) ps1)
           (filter (parsable_row (parse_numeric rt) (columns df) ps1) (rows df)) (rows d)"
    by simp
  from list_all2_lengthD[OF this] d1 d2
  show "\<exists>d. set_types rt df ps1 = Inr d \<and> set_types rt d ps2 = Inr df' \<and>
      length (rows d) =
        length (filter (parsable_row (parse_numeric rt) (columns df) ps1) (rows df))"
    by auto
qed

theorem set_types_sequential_drop_witness:
  "distinct (map fst mixed_params) \<and> wf_frame table_mixed \<and>
   set_types example_runtime table_mixed mixed_params = Inr table_coerced \<and>
   length (filter (parsable_row (parse_numeric example_runtime) (columns table_mixed) mixed_params)
     (rows table_mixed)) = 3 \<and>
   list_all2 (expected_row example_runtime (columns table_mixed) (rows table_mixed) mixed_params)
     (filter (parsable_row (parse_numeric example_runtime) (columns table_mixed) mixed_params)
       (rows table_mixed))
     (rows table_coerced) \<and>
   (\<exists>f. astype_cell example_runtime ''int'' = Inr f) \<and>
   (\<exists>d. set_types example_runtime table_mixed [(''qty'', ''to_numeric'')] = Inr d \<and>
        set_types example_runtime d [(''code'', ''int''), (''price'', ''to_numeric'')] =
          Inr table_coerced \<and>
        length (rows d) = 3)"
proof -
  have h1: "distinct (map fst mixed_params)" by (simp add: mixed_params_def)
  have h2: "wf_frame table_mixed" by (simp add: wf_frame_def table_mixed_def)
  have h3: "set_types example_runtime table_mixed mixed_params = Inr table_coerced"
    by code_simp
  have s: "mixed_params =
      [(''qty'', ''to_numeric'')] @ [(''code'', ''int''), (''price'', ''to_numeric'')]"
    by (simp add: mixed_params_def)
  have m: "(''code'', ''int'') \<in> set mixed_params" by (simp add: mixed_params_def)
  have l: "length (filter (parsable_row (parse_numeric example_runtime) (columns table_mixed)
      [(''qty'', ''to_numeric'')]) (rows table_mixed)) = 3"
    by code_simp
  note t = set_types_sequential_drop[OF h1 h2 h3]
  from t[THEN conjunct1]
  have a: "length (filter (parsable_row (parse_numeric example_runtime)
      (columns table_mixed) mixed_params) (rows table_mixed)) = 3"
    by (simp add: table_coerced_def)
  note b = t[THEN conjunct2, THEN conjunct1]
  from t[THEN conjunct2, THEN conjunct2, THEN conjunct1, rule_format, OF m]
  have c: "\<exists>f. astype_cell example_runtime ''int'' = Inr f" by simp
  from t[THEN conjunct2, THEN conjunct2, THEN conjunct2, rule_format, OF s]
  have d: "\<exists>d. set_types example_runtime table_mixed [(''qty'', ''to_numeric'')] = Inr d \<and>
        set_types example_runtime d [(''code'', ''int''), (''price'', ''to_numeric'')] =
          Inr table_coerced \<and> length (rows d) = 3"
    unfolding l .
  from h1 h2 h3 a b c d show ?thesis by (intro conjI)
qed

text \<open>
  C10. Under the same conditions the labels are unchanged, and the cells in the columns
  that no key of the parameters labels are, row after row, those of the input rows that
  survive, in the input's order.
\<close>

theorem set_types_frame:
  assumes "distinct (map fst ps)" and "wf_frame df" and "set_types rt df ps = Inr df'"
  shows "columns df' = columns df \<and>
         map (other_cells (columns df) ps) (rows df') =
         map (other_cells (columns df) ps)
           (filter (parsable_row (parse_numeric rt) (columns df) ps) (rows df))"
proof
  let ?P = "parsable_row (parse_numeric rt) (columns df) ps"
  from set_types_rows[OF assms] have c: "columns df' = columns df"
    and r: "list_all2 (expected_row rt (columns df) (rows df) ps) (filter ?P (rows df)) (rows df')"
    by simp_all
  show "columns df' = columns df" by (rule c)
  have "map (other_cells (columns df) ps) (filter ?P (rows df)) =
        map (other_cells (columns df) ps) (rows df')"
    using r
  proof (rule list_all2_map_eq)
    fix r r' assume e: "expected_row rt (columns df) (rows df) ps r r'"
    have "map (\<lambda>j. r ! j)
            (filter (\<lambda>j. columns df ! j \<notin> set (map fst ps)) [0..<length (columns df)]) =
          map (\<lambda>j. r' ! j)
            (filter (\<lambda>j. columns df ! j \<notin> set (map fst ps)) [0..<length (columns df)])"
    proof (rule map_cong[OF refl])
      fix j
      assume "j \<in> set (filter (\<lambda>j. columns df ! j \<notin> set (map fst ps))
          [0..<length (columns df)])"
      then have j: "j < length (columns df)" and n: "columns df ! j \<notin> set (map fst ps)"
        by simp_all
      from e j have "expected_cell rt (columns df) (rows df) ps j (r ! j) (r' ! j)"
        by (simp add: expected_row_iff)
      with n show "r ! j = r' ! j" by (simp add: expected_cell_no_key)
    qed
    then show "other_cells (columns df) ps r = other_cells (columns df) ps r'"
      by (simp add: other_cells_def)
  qed
  then show "map (other_cells (columns df) ps) (rows df') =
      map (other_cells (columns df) ps) (filter ?P (rows df))"
    by simp
qed

theorem set_types_frame_witness:
  "distinct (map fst numeric_params) \<and> wf_frame table_mixed \<and>
   set_types example_runtime table_mixed numeric_params = Inr table_numeric \<and>
   columns table_numeric = columns table_mixed \<and>
   map (other_cells (columns table_mixed) numeric_params)
     (filter (parsable_row (parse_numeric example_runtime) (columns table_mixed) numeric_params)
       (rows table_mixed)) =
     [[Str ''first'', Str ''7''], [Str ''third'', Str ''8''], [Str ''fourth'', Str ''9'']]"
proof -
  have h1: "distinct (map fst numeric_params)" by (simp add: numeric_params_def)
  have h2: "wf_frame table_mixed" by (simp add: wf_frame_def table_mixed_def)
  have h3: "set_types example_runtime table_mixed numeric_params = Inr table_numeric"
    by code_simp
  have o: "map (other_cells (columns table_mixed) numeric_params) (rows table_numeric) =
      [[Str ''first'', Str ''7''], [Str ''third'', Str ''8''], [Str ''fourth'', Str ''9'']]"
    by code_simp
  from set_types_frame[OF h1 h2 h3] o h1 h2 h3 show ?thesis by simp
qed

text \<open>
  Runs of the example: the column dtype decides whether a large integer is rounded; the
  column coerced first still holds the row that does not parse and becomes float64, the
  column coerced second no longer does and stays int64 and exact, whichever comes first;
  and a cast that fails on a row succeeds once an earlier item has dropped that row.
\<close>

lemma to_numeric_dtype_example:
  "to_numeric example_runtime [Str ''9007199254740993''] = [Num 9007199254740993] \<and>
   to_numeric example_runtime [Str ''9007199254740993'', Str ''x''] =
     [Num 9007199254740992, NA]"
  by code_simp

lemma set_types_order_example:
  "set_types example_runtime table_mixed [(''qty'', ''to_numeric''), (''price'', ''to_numeric'')] =
     Inr table_numeric \<and>
   set_types example_runtime table_mixed [(''price'', ''to_numeric''), (''qty'', ''to_numeric'')] =
     Inr \<lparr>columns = [''qty'', ''note'', ''price'', ''code''],
          rows = [[Num 1, Str ''first'', Num 9007199254740992, Str ''7''],
                  [Num 2, Str ''third'', Num 3, Str ''8''],
                  [Num 9007199254740993, Str ''fourth'', Num 1, Str ''9'']]\<rparr> \<and>
   set_types example_runtime table_mixed [(''code'', ''int''), (''qty'', ''to_numeric'')] =
     Inl ValueError"
  by code_simp

end
